theory Spec2Isabelle
  imports Complex_Main
begin

unbundle bit_operations_syntax

section \<open>Data model of mesh.cpp\<close>

text \<open>
  \<^verbatim>\<open>Real\<close> is modelled by the real numbers (exact arithmetic, no rounding, no NaN);
  \<^verbatim>\<open>int\<close> and \<^verbatim>\<open>long int\<close> by the integers. Linked lists of MeshBlocks
  (\<^verbatim>\<open>pblock\<close>, \<^verbatim>\<open>next\<close>) are HOL lists, the head of the list being
  \<^verbatim>\<open>pblock\<close>. A C++ exception, a null dereference and a read through an unallocated or
  out-of-range pointer are values of type \<open>error\<close>.
\<close>

datatype error =
    FatalNumThreads | FatalNx1 | FatalNx2 | FatalNx3 | FatalX1X3Plane
  | FatalCfl1D | FatalCfl2D3D
  | FatalX1Range | FatalX2Range | FatalX3Range
  | FatalX1Rat | FatalX2Rat | FatalX3Rat
  | FatalNotDivisible | FatalBlockTooSmall
  | FatalRestartBroken | FatalBlockRestartBroken | FatalTreeMismatch | FatalTooFewBlocks
  | DivisionByZero | BadArrayLength
  | NullDereference | UnallocatedRead | OutOfBoundsRead | OutOfBoundsWrite

record LogicalLocation =
  lx1 :: int
  lx2 :: int
  lx3 :: int
  level :: int

record RegionSize =
  x1min :: real
  x2min :: real
  x3min :: real
  x1max :: real
  x2max :: real
  x3max :: real
  x1rat :: real
  x2rat :: real
  x3rat :: real
  nx1 :: int
  nx2 :: int
  nx3 :: int

datatype neighbor_type = neighbor_face | neighbor_edge | neighbor_corner

datatype face = inner_x1 | outer_x1 | inner_x2 | outer_x2 | inner_x3 | outer_x3

text \<open>
  NeighborBlock: the fields \<^verbatim>\<open>level, gid, lid, type\<close> of the source are named
  \<open>nlevel, ngid, nlid, ntype\<close> here (the first three are also fields of other classes).
  \<^verbatim>\<open>fid\<close> and \<^verbatim>\<open>eid\<close> are written by SetNeighbor only for a face resp. an edge;
  \<open>None\<close> stands for "not written by this call".
\<close>

record NeighborBlock =
  rank :: int
  nlevel :: int
  ngid :: int
  nlid :: int
  ox1 :: int
  ox2 :: int
  ox3 :: int
  ntype :: neighbor_type
  bufid :: int
  targetid :: int
  fi1 :: int
  fi2 :: int
  fid :: "face option"
  eid :: "int option"

text \<open>
  MeshBlock: \<^verbatim>\<open>nblevel[k][j][i]\<close> is the flat list of its 27 entries, entry
  \<open>(k*3+j)*3+i\<close>; the members \<^verbatim>\<open>refine_flag_\<close> and \<^verbatim>\<open>neighbor_rflag_\<close> of
  \<^verbatim>\<open>pmr\<close> are the fields \<open>refine_flag\<close> and \<open>neighbor_rflag\<close> of the block (a
  name cannot end with an underscore here; likewise \<open>num_mesh_threads\<close> and
  \<open>maxneighbor\<close> of the mesh); \<^verbatim>\<open>neighbor[0..nneighbor)\<close> is the list \<open>neighbor\<close>.
\<close>

record MeshBlock =
  gid :: int
  lid :: int
  loc :: LogicalLocation
  cost :: real
  block_size :: RegionSize
  block_bcs :: "int list"
  new_block_dt :: real
  refine_flag :: int
  neighbor_rflag :: int
  neighbor :: "NeighborBlock list"
  nneighbor :: int
  nblevel :: "int list"

record Mesh =
  start_time :: real
  tlim :: real
  cfl_number :: real
  time :: real
  dt :: real
  nlim :: int
  ncycle :: int
  num_mesh_threads :: int
  mesh_size :: RegionSize
  mesh_bcs :: "int list"
  nrbx1 :: int
  nrbx2 :: int
  nrbx3 :: int
  root_level :: int
  max_level :: int
  current_level :: int
  multilevel :: bool
  adaptive :: bool
  face_only :: bool
  maxneighbor :: int
  nbtotal :: int
  nbstart :: int
  nbend :: int
  loclist :: "LogicalLocation list"
  costlist :: "real list"
  ranklist :: "int list"
  nslist :: "int list"
  nblist :: "int list"
  pblock :: "MeshBlock list"

section \<open>Mesh::FindMeshBlock\<close>

text \<open>The while loop over \<^verbatim>\<open>pbl\<close>: stop at the first block whose gid is tgid; the
  result is the pointer reached, NULL (\<open>None\<close>) at the end of the list.\<close>

fun FindMeshBlock_loop :: "MeshBlock list \<Rightarrow> int \<Rightarrow> MeshBlock option" where
  "FindMeshBlock_loop [] tgid = None"
| "FindMeshBlock_loop (pbl # rest) tgid =
     (if gid pbl = tgid then Some pbl else FindMeshBlock_loop rest tgid)"

definition FindMeshBlock :: "Mesh \<Rightarrow> int \<Rightarrow> MeshBlock option" where
  "FindMeshBlock m tgid = FindMeshBlock_loop (pblock m) tgid"

section \<open>Mesh::NewTimeStep\<close>



section \<open>Mesh constructor: reading and validating the input\<close>

text \<open>
  The parameters the constructor reads from \<^verbatim>\<open>ParameterInput\<close>. A parameter read with
  \<^verbatim>\<open>GetOrAdd...\<close> is optional (\<open>None\<close>: the default is taken); the others are taken
  as present.
\<close>

record ParameterInput =
  time_start_time :: "real option"
  time_tlim :: real
  time_cfl_number :: real
  time_nlim :: "int option"
  mesh_num_threads :: "int option"
  mesh_nx1 :: int
  mesh_nx2 :: int
  mesh_nx3 :: int
  mesh_x1min :: real
  mesh_x2min :: real
  mesh_x3min :: real
  mesh_x1max :: real
  mesh_x2max :: real
  mesh_x3max :: real
  mesh_x1rat :: "real option"
  mesh_x2rat :: "real option"
  mesh_x3rat :: "real option"
  mesh_ix1_bc :: "int option"
  mesh_ox1_bc :: "int option"
  mesh_ix2_bc :: "int option"
  mesh_ox2_bc :: "int option"
  mesh_ix3_bc :: "int option"
  mesh_ox3_bc :: "int option"
  meshblock_nx1 :: "int option"
  meshblock_nx2 :: "int option"
  meshblock_nx3 :: "int option"
  mesh_maxlevel :: "int option"
  mesh_refinement :: "string option"

definition GetOrAdd :: "'a option \<Rightarrow> 'a \<Rightarrow> 'a" where
  "GetOrAdd v d = (case v of None \<Rightarrow> d | Some x \<Rightarrow> x)"

text \<open>The two tests under \<^verbatim>\<open>// check cfl_number\<close>, the same in both constructors.\<close>

definition check_cfl_number :: "real \<Rightarrow> int \<Rightarrow> error + unit" where
  "check_cfl_number cfl mesh_size_nx2 =
     (if cfl > 1.0 \<and> mesh_size_nx2 = 1 then Inl FatalCfl1D
      else if cfl > 0.5 \<and> mesh_size_nx2 > 1 then Inl FatalCfl2D3D
      else Inr ())"

text \<open>What the constructor has computed when the checks of the input are done:
  the mesh and block sizes, the boundary flags, \<^verbatim>\<open>dim\<close> and the numbers of root blocks.\<close>

record MeshSetup =
  s_mesh_size :: RegionSize
  s_block_size :: RegionSize
  s_mesh_bcs :: "int list"
  s_dim :: int
  s_nrbx1 :: int
  s_nrbx2 :: int
  s_nrbx3 :: int

text \<open>
  \<^verbatim>\<open>Mesh::Mesh(ParameterInput *pin, int test_flag)\<close> from its first statement to the
  computation of \<^verbatim>\<open>nrbx1, nrbx2, nrbx3\<close>: every \<^verbatim>\<open>throw\<close> is an \<open>Inl\<close>, in the
  order of the source.
\<close>

definition Mesh_read_input :: "ParameterInput \<Rightarrow> error + MeshSetup" where
  "Mesh_read_input pin =
    (let cfl = time_cfl_number pin;
         num_threads = GetOrAdd (mesh_num_threads pin) 1
     in
     if num_threads < 1 then Inl FatalNumThreads
     else if mesh_nx1 pin < 4 then Inl FatalNx1
     else if mesh_nx2 pin < 1 then Inl FatalNx2
     else if mesh_nx3 pin < 1 then Inl FatalNx3
     else if mesh_nx2 pin = 1 \<and> mesh_nx3 pin > 1 then Inl FatalX1X3Plane
     else case check_cfl_number cfl (mesh_nx2 pin) of
       Inl e \<Rightarrow> Inl e
     | Inr _ \<Rightarrow>
     (let dim = (if mesh_nx3 pin > 1 then 3 else if mesh_nx2 pin > 1 then 2 else 1)
      in
      if mesh_x1max pin \<le> mesh_x1min pin then Inl FatalX1Range
      else if mesh_x2max pin \<le> mesh_x2min pin then Inl FatalX2Range
      else if mesh_x3max pin \<le> mesh_x3min pin then Inl FatalX3Range
      else
      (let r1 = GetOrAdd (mesh_x1rat pin) 1.0;
           r2 = GetOrAdd (mesh_x2rat pin) 1.0;
           r3 = GetOrAdd (mesh_x3rat pin) 1.0
       in
       if \<bar>r1 - 1.0\<bar> > 0.1 then Inl FatalX1Rat
       else if \<bar>r2 - 1.0\<bar> > 0.1 then Inl FatalX2Rat
       else if \<bar>r3 - 1.0\<bar> > 0.1 then Inl FatalX3Rat
       else
       (let bcs = [GetOrAdd (mesh_ix1_bc pin) 0, GetOrAdd (mesh_ox1_bc pin) 0,
                   GetOrAdd (mesh_ix2_bc pin) 0, GetOrAdd (mesh_ox2_bc pin) 0,
                   GetOrAdd (mesh_ix3_bc pin) 0, GetOrAdd (mesh_ox3_bc pin) 0];
            bnx1 = GetOrAdd (meshblock_nx1 pin) (mesh_nx1 pin);
            bnx2 = (if dim \<ge> 2 then GetOrAdd (meshblock_nx2 pin) (mesh_nx2 pin)
                    else mesh_nx2 pin);
            bnx3 = (if dim = 3 then GetOrAdd (meshblock_nx3 pin) (mesh_nx3 pin)
                    else mesh_nx3 pin)
        in
        if bnx1 = 0 \<or> bnx2 = 0 \<or> bnx3 = 0 then Inl DivisionByZero
        else if (mesh_nx1 pin) mod bnx1 \<noteq> 0
              \<or> (mesh_nx2 pin) mod bnx2 \<noteq> 0
              \<or> (mesh_nx3 pin) mod bnx3 \<noteq> 0 then Inl FatalNotDivisible
        else if bnx1 < 4 \<or> (bnx2 < 4 \<and> dim \<ge> 2) \<or> (bnx3 < 4 \<and> dim = 3)
        then Inl FatalBlockTooSmall
        else
        (let msz = \<lparr>x1min = mesh_x1min pin, x2min = mesh_x2min pin, x3min = mesh_x3min pin,
                    x1max = mesh_x1max pin, x2max = mesh_x2max pin, x3max = mesh_x3max pin,
                    x1rat = r1, x2rat = r2, x3rat = r3,
                    nx1 = mesh_nx1 pin, nx2 = mesh_nx2 pin, nx3 = mesh_nx3 pin\<rparr>
         in Inr \<lparr>s_mesh_size = msz,
                 s_block_size = msz\<lparr>nx1 := bnx1, nx2 := bnx2, nx3 := bnx3\<rparr>,
                 s_mesh_bcs = bcs, s_dim = dim,
                 s_nrbx1 = mesh_nx1 pin div bnx1,
                 s_nrbx2 = mesh_nx2 pin div bnx2,
                 s_nrbx3 = mesh_nx3 pin div bnx3\<rparr>)))))"


section \<open>Mesh::LoadBalancing\<close>

definition FLT_MAX :: real where
  "FLT_MAX = (2 - 1 / 2 ^ 23) * 2 ^ 127"

text \<open>The first loop: \<^verbatim>\<open>totalcost\<close>, \<^verbatim>\<open>mincost\<close> and \<^verbatim>\<open>maxcost\<close> of the cost list.\<close>

fun LoadBalancing_sums :: "real list \<Rightarrow> real \<times> real \<times> real \<Rightarrow> real \<times> real \<times> real" where
  "LoadBalancing_sums [] acc = acc"
| "LoadBalancing_sums (c # cs) (totalcost, mincost, maxcost) =
     LoadBalancing_sums cs (totalcost + c, min mincost c, max maxcost c)"

text \<open>
  The second loop, \<^verbatim>\<open>for(int i=nbtotal-1;i>=0;i--)\<close>. The first argument holds the costs
  in the order the loop visits them (\<^verbatim>\<open>clist[nbtotal-1]\<close> first); the result holds the
  ranks written to \<^verbatim>\<open>rlist[i]\<close> in the same order.
\<close>

fun LoadBalancing_sweep :: "real list \<Rightarrow> int \<Rightarrow> real \<Rightarrow> real \<Rightarrow> real \<Rightarrow> int list" where
  "LoadBalancing_sweep [] j totalcost targetcost mycost = []"
| "LoadBalancing_sweep (c # cs) j totalcost targetcost mycost =
     (if mycost + c \<ge> targetcost \<and> j > 0
      then j # LoadBalancing_sweep cs (j - 1) (totalcost - (mycost + c))
                 ((totalcost - (mycost + c)) / real_of_int ((j - 1) + 1)) 0
      else j # LoadBalancing_sweep cs j totalcost targetcost (mycost + c))"

text \<open>
  The third loop, which makes the list of first indices and counts. At both calls in the
  file \<^verbatim>\<open>slist\<close> is the member \<^verbatim>\<open>nslist\<close>, so the \<^verbatim>\<open>nslist[j]\<close> read by
  \<^verbatim>\<open>nlist[j]=i-nslist[j]\<close> is the entry of the list being written. The state is
  \<open>(j, slist, nlist)\<close>. (The ranks of the second loop go down by one at a time from
  \<open>nranks-1\<close>, so \<open>j\<close> stays below \<open>nranks\<close>, the length of the two lists.)
\<close>

definition LoadBalancing_starts_step ::
  "int list \<Rightarrow> nat \<times> int list \<times> int list \<Rightarrow> nat \<Rightarrow> nat \<times> int list \<times> int list" where
  "LoadBalancing_starts_step rlist s i =
     (case s of (j, slist, nlist) \<Rightarrow>
        if rlist ! i \<noteq> rlist ! (i - 1)
        then (j + 1, slist[j + 1 := int i], nlist[j := int i - slist ! j])
        else (j, slist, nlist))"

text \<open>
  \<^verbatim>\<open>Mesh::LoadBalancing(clist, rlist, slist, nlist)\<close> for \<^verbatim>\<open>Globals::nranks = nranks\<close>
  and \<^verbatim>\<open>nbtotal = length clist\<close>; \<open>slist0\<close> and \<open>nlist0\<close> are the contents of the
  two output arrays (of \<open>nranks\<close> entries) at entry. The result is
  \<open>(rlist, slist, nlist)\<close>.
\<close>

definition LoadBalancing ::
  "int \<Rightarrow> real list \<Rightarrow> int list \<Rightarrow> int list \<Rightarrow> int list \<times> int list \<times> int list" where
  "LoadBalancing nranks clist slist0 nlist0 =
     (case LoadBalancing_sums clist (0, FLT_MAX, 0) of (totalcost, mincost, maxcost) \<Rightarrow>
      (let rlist = rev (LoadBalancing_sweep (rev clist) (nranks - 1) totalcost
                          (totalcost / real_of_int nranks) 0)
       in case foldl (LoadBalancing_starts_step rlist) (0, slist0[0 := 0], nlist0)
                 [1 ..< length clist] of
            (j, slist, nlist) \<Rightarrow>
              (rlist, slist, nlist[j := int (length clist) - slist ! j])))"

text \<open>The warning of LoadBalancing (printed with MPI only, on rank 0).\<close>

definition LoadBalancing_warns :: "int \<Rightarrow> bool \<Rightarrow> real list \<Rightarrow> bool" where
  "LoadBalancing_warns nranks is_adaptive clist =
     (case LoadBalancing_sums clist (0, FLT_MAX, 0) of (totalcost, mincost, maxcost) \<Rightarrow>
        int (length clist) mod nranks \<noteq> 0 \<and> is_adaptive = False \<and> maxcost = mincost)"



section \<open>Blocks, meshes and inputs on which the model is evaluated\<close>

definition region0 :: RegionSize where
  "region0 = \<lparr>x1min = 0, x2min = 0, x3min = 0, x1max = 1, x2max = 1, x3max = 1,
              x1rat = 1, x2rat = 1, x3rat = 1, nx1 = 16, nx2 = 1, nx3 = 1\<rparr>"

definition block0 :: "int \<Rightarrow> LogicalLocation \<Rightarrow> real \<Rightarrow> int \<Rightarrow> MeshBlock" where
  "block0 g l d f =
     \<lparr>gid = g, lid = g, loc = l, cost = 1, block_size = region0, block_bcs = [0,0,0,0,0,0],
      new_block_dt = d, refine_flag = f, neighbor_rflag = 0, neighbor = [], nneighbor = 0,
      nblevel = replicate 27 (-1)\<rparr>"

definition mesh0 :: "RegionSize \<Rightarrow> MeshBlock list \<Rightarrow> Mesh" where
  "mesh0 sz bs =
     \<lparr>start_time = 0, tlim = 3 / 100, cfl_number = 1 / 2, time = 0, dt = 1, nlim = -1,
      ncycle = 0, num_mesh_threads = 1, mesh_size = sz, mesh_bcs = [0,0,0,0,0,0],
      nrbx1 = 4, nrbx2 = 1, nrbx3 = 1, root_level = 2, max_level = 63, current_level = 2,
      multilevel = False, adaptive = False, face_only = True, maxneighbor = 2,
      nbtotal = int (length bs), nbstart = 0, nbend = int (length bs) - 1,
      loclist = map loc bs, costlist = map cost bs, ranklist = map (\<lambda>b. 0) bs,
      nslist = [0], nblist = [int (length bs)], pblock = bs\<rparr>"

definition loc0 :: "int \<Rightarrow> int \<Rightarrow> int \<Rightarrow> int \<Rightarrow> LogicalLocation" where
  "loc0 lev i j k = \<lparr>lx1 = i, lx2 = j, lx3 = k, level = lev\<rparr>"

definition pin0 :: "real \<Rightarrow> ParameterInput" where
  "pin0 cfl =
     \<lparr>time_start_time = None, time_tlim = 1, time_cfl_number = cfl, time_nlim = None,
      mesh_num_threads = None, mesh_nx1 = 64, mesh_nx2 = 1, mesh_nx3 = 1,
      mesh_x1min = 0, mesh_x2min = 0, mesh_x3min = 0,
      mesh_x1max = 1, mesh_x2max = 1, mesh_x3max = 1,
      mesh_x1rat = None, mesh_x2rat = None, mesh_x3rat = None,
      mesh_ix1_bc = Some 4, mesh_ox1_bc = Some 4, mesh_ix2_bc = None, mesh_ox2_bc = None,
      mesh_ix3_bc = None, mesh_ox3_bc = None,
      meshblock_nx1 = Some 16, meshblock_nx2 = None, meshblock_nx3 = None,
      mesh_maxlevel = None, mesh_refinement = None\<rparr>"


section \<open>MeshBlock::SearchAndSetNeighbors\<close>


definition SetNeighbor ::
  "int \<Rightarrow> int \<Rightarrow> int \<Rightarrow> int \<Rightarrow> int \<Rightarrow> int \<Rightarrow> int \<Rightarrow> neighbor_type \<Rightarrow> int \<Rightarrow> int \<Rightarrow> int \<Rightarrow> int
     \<Rightarrow> NeighborBlock" where
  "SetNeighbor irank ilevel igid ilid iox1 iox2 iox3 itype ibid itargetid ifi1 ifi2 =
     \<lparr>rank = irank, nlevel = ilevel, ngid = igid, nlid = ilid,
      ox1 = iox1, ox2 = iox2, ox3 = iox3, ntype = itype,
      bufid = ibid, targetid = itargetid, fi1 = ifi1, fi2 = ifi2,
      fid = (if itype = neighbor_face
             then (if iox1 = -1 then Some inner_x1
                   else if iox1 = 1 then Some outer_x1
                   else if iox2 = -1 then Some inner_x2
                   else if iox2 = 1 then Some outer_x2
                   else if iox3 = -1 then Some inner_x3
                   else if iox3 = 1 then Some outer_x3
                   else None)
             else None),
      eid = (if itype = neighbor_edge
             then (if iox3 = 0 then Some (drop_bit 1 (iox1 + 1) OR ((iox2 + 1) AND 2))
                   else if iox2 = 0 then Some (4 + (drop_bit 1 (iox1 + 1) OR ((iox3 + 1) AND 2)))
                   else if iox1 = 0 then Some (8 + (drop_bit 1 (iox2 + 1) OR ((iox3 + 1) AND 2)))
                   else None)
             else None)\<rparr>"

text \<open>The local state of SearchAndSetNeighbors: the counter \<^verbatim>\<open>bufid\<close>, the entries
  \<^verbatim>\<open>neighbor[0..nneighbor)\<close> and \<^verbatim>\<open>nblevel\<close>.\<close>

record SearchState =
  cur_bufid :: int
  cur_neighbor :: "NeighborBlock list"
  cur_nblevel :: "int list"

definition set_nblevel :: "int \<Rightarrow> int \<Rightarrow> int \<Rightarrow> int \<Rightarrow> SearchState \<Rightarrow> SearchState" where
  "set_nblevel k j i v s = s\<lparr>cur_nblevel := (cur_nblevel s)[nat ((k * 3 + j) * 3 + i) := v]\<rparr>"

definition add_neighbor :: "NeighborBlock \<Rightarrow> SearchState \<Rightarrow> SearchState" where
  "add_neighbor nb s = s\<lparr>cur_neighbor := cur_neighbor s @ [nb]\<rparr>"

definition advance_bufid :: "int \<Rightarrow> SearchState \<Rightarrow> SearchState" where
  "advance_bufid d s = s\<lparr>cur_bufid := cur_bufid s + d\<rparr>"



























text \<open>The buffer ids of a list of neighbors are in order: strictly increasing along the
  list, not negative and below the counter.\<close>

definition ids_ok :: "SearchState \<Rightarrow> bool" where
  "ids_ok s \<longleftrightarrow> sorted_wrt (<) (map bufid (cur_neighbor s))
       \<and> list_all (\<lambda>x. 0 \<le> bufid x \<and> bufid x < cur_bufid s) (cur_neighbor s)
       \<and> 0 \<le> cur_bufid s"

text \<open>The buffer ids of the list of neighbors are exactly the ids below the counter, in
  order.\<close>

definition ids_dense :: "SearchState \<Rightarrow> bool" where
  "ids_dense s \<longleftrightarrow> map bufid (cur_neighbor s) = [0 .. cur_bufid s - 1] \<and> 0 \<le> cur_bufid s"







section \<open>Mesh::MeshRefinement\<close>

text \<open>
  An array obtained with \<^verbatim>\<open>new\<close> is a list; a pointer that was declared and never
  assigned (\<^verbatim>\<open>lderef\<close> and \<^verbatim>\<open>clderef\<close> when \<^verbatim>\<open>tnderef <= minbl\<close>) is \<open>None\<close>.
  Reading through it, or reading past the end of the array, is an error of the model.
\<close>

definition array_read :: "'a list option \<Rightarrow> int \<Rightarrow> error + 'a" where
  "array_read a i =
     (case a of
        None \<Rightarrow> Inl UnallocatedRead
      | Some xs \<Rightarrow> if 0 \<le> i \<and> i < int (length xs) then Inr (xs ! nat i)
                   else Inl OutOfBoundsRead)"

text \<open>The number of blocks of a list with a given refinement flag (the counting loop).\<close>

fun count_flag :: "MeshBlock list \<Rightarrow> int \<Rightarrow> int" where
  "count_flag [] f = 0"
| "count_flag (pmb # rest) f = (if refine_flag pmb = f then 1 else 0) + count_flag rest f"

text \<open>The loop that collects the locations: the entries written to \<^verbatim>\<open>lref\<close>,
  \<^verbatim>\<open>fref\<close> and (only when \<^verbatim>\<open>tnderef > minbl\<close>) \<^verbatim>\<open>lderef\<close>, in the order of the
  block list, starting at index 0.\<close>

fun collect_lref :: "MeshBlock list \<Rightarrow> LogicalLocation list" where
  "collect_lref [] = []"
| "collect_lref (pmb # rest) =
     (if refine_flag pmb = 1 then loc pmb # collect_lref rest else collect_lref rest)"

fun collect_fref :: "MeshBlock list \<Rightarrow> int list" where
  "collect_fref [] = []"
| "collect_fref (pmb # rest) =
     (if refine_flag pmb = 1 then neighbor_rflag pmb # collect_fref rest else collect_fref rest)"

fun collect_lderef :: "MeshBlock list \<Rightarrow> LogicalLocation list" where
  "collect_lderef [] = []"
| "collect_lderef (pmb # rest) =
     (if refine_flag pmb = -1 then loc pmb # collect_lderef rest else collect_lderef rest)"

text \<open>The offsets \<open>(i, j, k)\<close> in the order of the three nested loops
  (\<open>k\<close> outermost, \<open>i\<close> innermost).\<close>

definition sibling_offsets :: "int \<Rightarrow> int \<Rightarrow> (int \<times> int \<times> int) list" where
  "sibling_offsets je ke =
     concat (map (\<lambda>k. concat (map (\<lambda>j. map (\<lambda>i. (i, j, k)) [0 .. 1]) [0 .. je])) [0 .. ke])"

text \<open>The body of the three nested loops: compare \<^verbatim>\<open>lderef[n]\<close> shifted by the offset
  with \<^verbatim>\<open>lderef[r]\<close>, count the matches in \<open>rr\<close>, advance \<open>r\<close>.\<close>

fun sibling_scan ::
  "LogicalLocation list option \<Rightarrow> LogicalLocation \<Rightarrow> (int \<times> int \<times> int) list \<Rightarrow> int \<Rightarrow> int
     \<Rightarrow> error + int" where
  "sibling_scan lderef ldn [] r rr = Inr rr"
| "sibling_scan lderef ldn ((i, j, k) # offs) r rr =
     (case array_read lderef r of
        Inl e \<Rightarrow> Inl e
      | Inr ldr \<Rightarrow>
          sibling_scan lderef ldn offs (r + 1)
            (if lx1 ldn + i = lx1 ldr \<and> lx2 ldn + j = lx2 ldr \<and> lx3 ldn + k = lx3 ldr
                \<and> level ldn = level ldr
             then rr + 1 else rr))"

text \<open>
  The loop \<^verbatim>\<open>for(int n=0; n<tnderef; n++)\<close>; the second argument is the list of the
  values of \<open>n\<close> still to visit, the last the entries \<^verbatim>\<open>clderef[0..ctnd)\<close> written so
  far. \<^verbatim>\<open>clderef\<close> has \<^verbatim>\<open>tnderef/minbl\<close> entries.
\<close>

fun derefine_loop ::
  "LogicalLocation list option \<Rightarrow> int list \<Rightarrow> int \<Rightarrow> int \<Rightarrow> int \<Rightarrow> int
     \<Rightarrow> LogicalLocation list \<Rightarrow> error + LogicalLocation list" where
  "derefine_loop lderef [] tnderef minbl je ke clderef = Inr clderef"
| "derefine_loop lderef (n # ns) tnderef minbl je ke clderef =
     (case array_read lderef n of
        Inl e \<Rightarrow> Inl e
      | Inr ldn \<Rightarrow>
          if lx1 ldn AND 1 = 0 \<and> lx2 ldn AND 1 = 0 \<and> lx3 ldn AND 1 = 0
          then (case sibling_scan lderef ldn (sibling_offsets je ke) (n + 1) 0 of
                  Inl e \<Rightarrow> Inl e
                | Inr rr \<Rightarrow>
                    if rr = minbl
                    then (if int (length clderef) < tnderef div minbl
                          then derefine_loop lderef ns tnderef minbl je ke
                                 (clderef @ [\<lparr>lx1 = drop_bit 1 (lx1 ldn), lx2 = drop_bit 1 (lx2 ldn),
                                              lx3 = drop_bit 1 (lx3 ldn), level = level ldn - 1\<rparr>])
                          else Inl OutOfBoundsWrite)
                    else derefine_loop lderef ns tnderef minbl je ke clderef)
          else derefine_loop lderef ns tnderef minbl je ke clderef)"

text \<open>
  \<^verbatim>\<open>std::sort(first, last, cmp)\<close> orders the range by \<open>cmp\<close>; the order of equivalent
  elements is not specified, and an insertion sort stands for it here. The comparison
  \<^verbatim>\<open>LogicalLocation::Greater\<close> is declared outside mesh.cpp and is a parameter.
\<close>

fun sort_insert :: "('a \<Rightarrow> 'a \<Rightarrow> bool) \<Rightarrow> 'a \<Rightarrow> 'a list \<Rightarrow> 'a list" where
  "sort_insert cmp x [] = [x]"
| "sort_insert cmp x (y # ys) = (if cmp y x then y # sort_insert cmp x ys else x # y # ys)"

fun std_sort :: "('a \<Rightarrow> 'a \<Rightarrow> bool) \<Rightarrow> 'a list \<Rightarrow> 'a list" where
  "std_sort cmp [] = []"
| "std_sort cmp (x # xs) = sort_insert cmp x (std_sort cmp xs)"

text \<open>\<^verbatim>\<open>if(ctnd>1) std::sort(clderef, &(clderef[ctnd-1]), LogicalLocation::Greater)\<close>:
  the range sorted ends before \<^verbatim>\<open>clderef[ctnd-1]\<close>.\<close>

definition sort_clderef ::
  "(LogicalLocation \<Rightarrow> LogicalLocation \<Rightarrow> bool) \<Rightarrow> LogicalLocation list \<Rightarrow> LogicalLocation list" where
  "sort_clderef Greater clderef =
     (let ctnd = length clderef
      in if ctnd > 1 then std_sort Greater (take (ctnd - 1) clderef) @ drop (ctnd - 1) clderef
         else clderef)"

text \<open>The lists at the comment "Now the lists of the blocks to be refined and derefined
  are completed".\<close>

record RefinementLists =
  tnref :: int
  tnderef :: int
  lref :: "LogicalLocation list option"
  fref :: "int list option"
  clderef :: "LogicalLocation list"

text \<open>
  \<^verbatim>\<open>Mesh::MeshRefinement\<close> up to that comment, for the build without MPI_PARALLEL
  (one process: \<^verbatim>\<open>Globals::nranks = 1\<close>, \<^verbatim>\<open>my_rank = 0\<close>, so the totals are the local
  counts and the displacements are 0). \<open>None\<close> is the return taken when nothing is
  flagged.
\<close>

definition MeshRefinement_lists ::
  "(LogicalLocation \<Rightarrow> LogicalLocation \<Rightarrow> bool) \<Rightarrow> Mesh \<Rightarrow> error + RefinementLists option" where
  "MeshRefinement_lists Greater m =
     (let tnref = count_flag (pblock m) 1;
          tnderef = count_flag (pblock m) (-1)
      in if tnref = 0 \<and> tnderef = 0 then Inr None
         else
         (let lref = (if tnref \<noteq> 0 then Some (collect_lref (pblock m)) else None);
              fref = (if tnref \<noteq> 0 then Some (collect_fref (pblock m)) else None);
              minbl = (if nx3 (mesh_size m) > 1 then 8 else if nx2 (mesh_size m) > 1 then 4 else 2);
              lderef = (if tnderef > minbl then Some (collect_lderef (pblock m)) else None);
              je = (if nx2 (mesh_size m) > 1 then 1 else 0);
              ke = (if nx3 (mesh_size m) > 1 then 1 else 0)
          in case derefine_loop lderef [0 ..  tnderef - 1] tnderef minbl je ke [] of
               Inl e \<Rightarrow> Inl e
             | Inr cl \<Rightarrow>
                 Inr (Some \<lparr>tnref = tnref, tnderef = tnderef, lref = lref, fref = fref,
                            clderef = sort_clderef Greater cl\<rparr>)))"

text \<open>
  The loop "re-initialize the MeshBlocks": \<^verbatim>\<open>pmb\<close> runs over the list (second
  argument: what is left of it), and each turn calls
  \<^verbatim>\<open>pblock->SearchAndSetNeighbors(tree, ranklist, nslist)\<close>, that is on the block
  \<^verbatim>\<open>pblock\<close> points to, the head of the list. \<open>ssn\<close> is SearchAndSetNeighbors with
  these arguments, as a function on the block.
\<close>

fun reinitialize_loop :: "(MeshBlock \<Rightarrow> MeshBlock) \<Rightarrow> MeshBlock list \<Rightarrow> MeshBlock list \<Rightarrow> MeshBlock list" where
  "reinitialize_loop ssn [] blocks = blocks"
| "reinitialize_loop ssn (pmb # rest) blocks =
     reinitialize_loop ssn rest (case blocks of [] \<Rightarrow> [] | first # others \<Rightarrow> ssn first # others)"

text \<open>
  \<^verbatim>\<open>Mesh::MeshRefinement\<close>. The steps "perform refinement", "perform derefinement" and
  "assign new costs" are empty in the source. \<open>Initialize\<close> is \<^verbatim>\<open>Mesh::Initialize\<close>
  (its work is done by the physics modules), a parameter.
\<close>

definition MeshRefinement ::
  "(MeshBlock \<Rightarrow> MeshBlock) \<Rightarrow> (int \<Rightarrow> Mesh \<Rightarrow> Mesh)
     \<Rightarrow> (LogicalLocation \<Rightarrow> LogicalLocation \<Rightarrow> bool) \<Rightarrow> Mesh \<Rightarrow> error + Mesh" where
  "MeshRefinement ssn Initialize Greater m =
     (case MeshRefinement_lists Greater m of
        Inl e \<Rightarrow> Inl e
      | Inr None \<Rightarrow> Inr m
      | Inr (Some rl) \<Rightarrow>
          Inr (Initialize 2 (m\<lparr>pblock := reinitialize_loop ssn (pblock m) (pblock m)\<rparr>)))"

text \<open>Meshes at which the cycle is evaluated: a 1D mesh with one block flagged for
  derefinement; a 2D mesh with one of four siblings flagged; a 1D list of flagged
  locations that makes the filter accept two parents; a 1D mesh with the first of two
  blocks flagged for refinement.\<close>

definition region2d :: RegionSize where
  "region2d = region0\<lparr>nx2 := 16\<rparr>"

definition lone_derefine_1d :: Mesh where
  "lone_derefine_1d =
     mesh0 region0 [block0 0 (loc0 2 0 0 0) 1 (-1), block0 1 (loc0 2 1 0 0) 1 0]"

definition one_of_four_siblings :: Mesh where
  "one_of_four_siblings =
     mesh0 region2d [block0 0 (loc0 2 0 0 0) 1 (-1), block0 1 (loc0 2 1 0 0) 1 0,
                     block0 2 (loc0 2 0 1 0) 1 0, block0 3 (loc0 2 1 1 0) 1 0]"


definition refine_first_of_two :: Mesh where
  "refine_first_of_two =
     mesh0 region0 [block0 0 (loc0 2 0 0 0) 1 1, block0 1 (loc0 2 1 0 0) 1 0]"

section \<open>Mesh constructor for restarting\<close>

text \<open>
  \<^verbatim>\<open>IOWrapper\<close> is not part of mesh.cpp. A call \<^verbatim>\<open>resfile.Read(buf, size, count)\<close> is
  modelled by its outcome, a pair of the number of items it returned and the value it left
  in the buffer; the restart file is the collection of the outcomes of the reads the
  constructors make: those of the header, those of the \<open>i\<close>-th turn of the id-list loop,
  and those that follow \<^verbatim>\<open>resfile.Seek(offset)\<close>.
\<close>

type_synonym 'a read_outcome = "nat \<times> 'a"

record RestartHeader =
  rd_nbtotal :: "int read_outcome"
  rd_root_level :: "int read_outcome"
  rd_mesh_size :: "RegionSize read_outcome"
  rd_mesh_bcs :: "int list read_outcome"
  rd_time :: "real read_outcome"
  rd_dt :: "real read_outcome"
  rd_ncycle :: "int read_outcome"

record RestartIdRecord =
  rd_bgid :: "int read_outcome"
  rd_loc :: "LogicalLocation read_outcome"
  rd_cost :: "real read_outcome"
  rd_offset :: "nat read_outcome"

record RestartBlockData =
  rd_block_size :: "RegionSize read_outcome"
  rd_block_bcs :: "int list read_outcome"
  rd_u :: "real list read_outcome"
  rd_w :: "real list read_outcome"
  rd_w1 :: "real list read_outcome"
  rd_x1f :: "real list read_outcome"
  rd_x2f :: "real list read_outcome"
  rd_x3f :: "real list read_outcome"

record IOWrapper =
  file_header :: RestartHeader
  file_idlist :: "nat \<Rightarrow> RestartIdRecord"
  file_block :: "nat \<Rightarrow> RestartBlockData"

text \<open>The sizes \<^verbatim>\<open>GetSize()\<close> of the arrays of a block, which the constructors of Hydro and
  Field fix from the block size.\<close>

record ArraySizes =
  u_size :: nat
  w_size :: nat
  w1_size :: nat
  x1f_size :: nat
  x2f_size :: nat
  x3f_size :: nat

text \<open>
  What the restart constructors take from outside mesh.cpp: the configuration macros,
  \<^verbatim>\<open>Globals::nranks\<close> and \<^verbatim>\<open>Globals::my_rank\<close>, \<^verbatim>\<open>BufferID\<close>, the tree
  (\<open>rebuild_tree loclist nrbx1 nrbx2 nrbx3 root_level\<close> stands for the calls of
  \<^verbatim>\<open>AddMeshBlockWithoutRefine\<close> and of \<^verbatim>\<open>GetMeshBlockList\<close>, and gives the new
  \<^verbatim>\<open>loclist\<close> and the number of leaves \<^verbatim>\<open>nnb\<close>), the array sizes,
  SearchAndSetNeighbors with the tree and the two lists as a function on the block, and
  the contents of storage before it is initialised (\<open>raw_block\<close>, \<open>raw_nslist\<close>,
  \<open>raw_nblist\<close>).
\<close>

record RestartEnv =
  MPI_PARALLEL :: bool
  MAGNETIC_FIELDS_ENABLED :: bool
  GENERAL_RELATIVITY :: bool
  VISCOSITY :: bool
  Globals_nranks :: int
  Globals_my_rank :: int
  BufferID :: "int \<Rightarrow> bool \<Rightarrow> bool \<Rightarrow> int"
  rebuild_tree :: "LogicalLocation list \<Rightarrow> int \<Rightarrow> int \<Rightarrow> int \<Rightarrow> int \<Rightarrow> LogicalLocation list \<times> int"
  array_sizes :: "RegionSize \<Rightarrow> ArraySizes"
  search_neighbors :: "int list \<Rightarrow> int list \<Rightarrow> MeshBlock \<Rightarrow> MeshBlock"
  raw_block :: MeshBlock
  raw_nslist :: "int list"
  raw_nblist :: "int list"

text \<open>\<^verbatim>\<open>nerr\<close>: the number of reads, given as pairs (returned, requested), that returned
  another number of items than requested.\<close>

fun count_nerr :: "(nat \<times> nat) list \<Rightarrow> int" where
  "count_nerr [] = 0"
| "count_nerr ((returned, requested) # rest) =
     (if returned \<noteq> requested then 1 else 0) + count_nerr rest"

definition header_nerr :: "RestartHeader \<Rightarrow> int" where
  "header_nerr h =
     count_nerr [(fst (rd_nbtotal h), 1), (fst (rd_root_level h), 1), (fst (rd_mesh_size h), 1),
                 (fst (rd_mesh_bcs h), 6), (fst (rd_time h), 1), (fst (rd_dt h), 1),
                 (fst (rd_ncycle h), 1)]"

definition idrecord_nerr :: "RestartIdRecord \<Rightarrow> int" where
  "idrecord_nerr r =
     count_nerr [(fst (rd_bgid r), 1), (fst (rd_loc r), 1), (fst (rd_cost r), 1),
                 (fst (rd_offset r), 1)]"

text \<open>The state of the loop that reads the id list.\<close>

record IdListState =
  il_nerr :: int
  il_loclist :: "LogicalLocation list"
  il_costlist :: "real list"
  il_offset :: "nat list"
  il_multilevel :: bool
  il_current_level :: int
  il_mincost :: real
  il_maxcost :: real

definition read_idrecord :: "int \<Rightarrow> IdListState \<Rightarrow> RestartIdRecord \<Rightarrow> IdListState" where
  "read_idrecord rootlevel s r =
     \<lparr>il_nerr = il_nerr s + idrecord_nerr r,
      il_loclist = il_loclist s @ [snd (rd_loc r)],
      il_costlist = il_costlist s @ [snd (rd_cost r)],
      il_offset = il_offset s @ [snd (rd_offset r)],
      il_multilevel = (if level (snd (rd_loc r)) \<noteq> rootlevel then True else il_multilevel s),
      il_current_level = (if level (snd (rd_loc r)) > il_current_level s
                          then level (snd (rd_loc r)) else il_current_level s),
      il_mincost = min (il_mincost s) (snd (rd_cost r)),
      il_maxcost = max (il_maxcost s) (snd (rd_cost r))\<rparr>"

definition read_idlist :: "IOWrapper \<Rightarrow> int \<Rightarrow> int \<Rightarrow> IdListState" where
  "read_idlist resfile nbtot rootlevel =
     foldl (\<lambda>s i. read_idrecord rootlevel s (file_idlist resfile i))
       \<lparr>il_nerr = 0, il_loclist = [], il_costlist = [], il_offset = [],
        il_multilevel = False, il_current_level = rootlevel,
        il_mincost = FLT_MAX, il_maxcost = 0\<rparr>
       [0 ..< nat nbtot]"

text \<open>
  The MeshBlock constructor for restarting, after \<^verbatim>\<open>resfile.Seek(offset)\<close>; \<open>d\<close> holds
  the outcomes of its reads. The fields of the block that the constructor does not assign
  keep the contents of \<open>raw_block\<close>.
\<close>

definition MeshBlock_restart ::
  "RestartEnv \<Rightarrow> int \<Rightarrow> int \<Rightarrow> LogicalLocation \<Rightarrow> RestartBlockData \<Rightarrow> real \<Rightarrow> error + MeshBlock" where
  "MeshBlock_restart env igid ilid iloc d icost =
     (if count_nerr [(fst (rd_block_size d), 1), (fst (rd_block_bcs d), 6)] > 0
      then Inl FatalBlockRestartBroken
      else
      (let bsz = snd (rd_block_size d);
           sz = array_sizes env bsz;
           nerr = count_nerr [(fst (rd_u d), u_size sz)]
                  + (if GENERAL_RELATIVITY env
                     then count_nerr [(fst (rd_w d), w_size sz), (fst (rd_w1 d), w1_size sz)]
                     else 0)
                  + (if MAGNETIC_FIELDS_ENABLED env
                     then count_nerr [(fst (rd_x1f d), x1f_size sz), (fst (rd_x2f d), x2f_size sz),
                                      (fst (rd_x3f d), x3f_size sz)]
                     else 0)
       in if nerr > 0 then Inl FatalBlockRestartBroken
          else Inr ((raw_block env)\<lparr>gid := igid, lid := ilid, loc := iloc, cost := icost,
                                     block_size := bsz, block_bcs := snd (rd_block_bcs d)\<rparr>)))"

text \<open>The loop "load MeshBlocks": the second argument holds the values of \<open>i\<close> still to
  visit, the last the blocks created so far.\<close>

fun load_blocks ::
  "RestartEnv \<Rightarrow> IOWrapper \<Rightarrow> LogicalLocation list \<Rightarrow> nat list \<Rightarrow> real list \<Rightarrow> int list \<Rightarrow> int list
     \<Rightarrow> int \<Rightarrow> int list \<Rightarrow> MeshBlock list \<Rightarrow> error + MeshBlock list" where
  "load_blocks env resfile locs offs costs rlist slist nbstart0 [] blocks = Inr blocks"
| "load_blocks env resfile locs offs costs rlist slist nbstart0 (i # rest) blocks =
     (case array_read (Some locs) i of Inl e \<Rightarrow> Inl e | Inr iloc \<Rightarrow>
      case array_read (Some offs) i of Inl e \<Rightarrow> Inl e | Inr off \<Rightarrow>
      case array_read (Some costs) i of Inl e \<Rightarrow> Inl e | Inr icost \<Rightarrow>
      case MeshBlock_restart env i (i - nbstart0) iloc (file_block resfile off) icost of
        Inl e \<Rightarrow> Inl e
      | Inr b \<Rightarrow>
          load_blocks env resfile locs offs costs rlist slist nbstart0 rest
            (blocks @ [search_neighbors env rlist slist b]))"

text \<open>Division of C++ on \<^verbatim>\<open>int\<close>: the quotient is truncated towards zero.\<close>

definition c_div :: "int \<Rightarrow> int \<Rightarrow> int" where
  "c_div a b = sgn a * sgn b * (\<bar>a\<bar> div \<bar>b\<bar>)"

text \<open>
  \<^verbatim>\<open>Mesh::Mesh(ParameterInput *pin, IOWrapper& resfile, int test_flag)\<close>, in three
  parts. The values of \<^verbatim>\<open>meshblock/nx1, nx2, nx3\<close>, read as reals and converted to
  \<^verbatim>\<open>int\<close>, are the integers of the input record. \<^verbatim>\<open>new T[nbtotal]\<close> fails for a
  negative \<^verbatim>\<open>nbtotal\<close>.

  Last part, from the test "nbtotal < Globals::nranks" to the end: \<open>m0\<close> is the mesh as
  the members stand at that point, \<open>il\<close> the result of the id-list loop.
\<close>

definition Mesh_restart_load ::
  "RestartEnv \<Rightarrow> IOWrapper \<Rightarrow> int \<Rightarrow> int \<Rightarrow> IdListState \<Rightarrow> Mesh \<Rightarrow> error + Mesh" where
  "Mesh_restart_load env resfile test_flag nranks il m0 =
     (if MPI_PARALLEL env \<and> nbtotal m0 < nranks
      then (if test_flag = 0 then Inl FatalTooFewBlocks else Inr m0)
      else
      (case LoadBalancing nranks (costlist m0) (nslist m0) (nblist m0) of
         (rl, sl, nl) \<Rightarrow>
         (case array_read (Some sl) (Globals_my_rank env) of
            Inl e \<Rightarrow> Inl e
          | Inr first \<Rightarrow>
          (case (if Globals_my_rank env + 1 = nranks then Inr (nbtotal m0 - 1)
                 else (case array_read (Some sl) (Globals_my_rank env + 1) of
                         Inl e \<Rightarrow> Inl e | Inr nxt \<Rightarrow> Inr (nxt - 1))) of
             Inl e \<Rightarrow> Inl e
           | Inr lst \<Rightarrow>
             (if test_flag > 0
              then Inr (m0\<lparr>ranklist := rl, nslist := sl, nblist := nl,
                           nbstart := first, nbend := lst\<rparr>)
              else (case load_blocks env resfile (loclist m0) (il_offset il) (costlist m0)
                           rl sl first [first .. lst] [] of
                      Inl e \<Rightarrow> Inl e
                    | Inr blocks \<Rightarrow>
                        Inr (m0\<lparr>ranklist := rl, nslist := sl, nblist := nl,
                                 nbstart := first, nbend := lst, pblock := blocks\<rparr>)))))))"

text \<open>Middle part, from \<^verbatim>\<open>adaptive=false\<close> to the check of the rebuilt tree.\<close>

definition Mesh_restart_tree ::
  "RestartEnv \<Rightarrow> ParameterInput \<Rightarrow> IOWrapper \<Rightarrow> int \<Rightarrow> int \<Rightarrow> IdListState \<Rightarrow> error + Mesh" where
  "Mesh_restart_tree env pin resfile test_flag nranks il =
     (let h = file_header resfile;
          nbtot = snd (rd_nbtotal h);
          rootlevel = snd (rd_root_level h);
          msize = snd (rd_mesh_size h);
          dim = (if nx3 msize > 1 then 3 else if nx2 msize > 1 then 2 else 1);
          is_adaptive = (GetOrAdd (mesh_refinement pin) ''static'' = ''adaptive'');
          is_multilevel = (if is_adaptive then True else il_multilevel il);
          is_face_only = (if MAGNETIC_FIELDS_ENABLED env \<or> is_multilevel \<or> VISCOSITY env
                          then False else True);
          rb1 = c_div (nx1 msize) (GetOrAdd (meshblock_nx1 pin) (nx1 msize));
          rb2 = c_div (nx2 msize) (GetOrAdd (meshblock_nx2 pin) (nx2 msize));
          rb3 = c_div (nx3 msize) (GetOrAdd (meshblock_nx3 pin) (nx3 msize))
      in case rebuild_tree env (il_loclist il) rb1 rb2 rb3 rootlevel of (locs, nnb) \<Rightarrow>
         if nnb \<noteq> nbtot then Inl FatalTreeMismatch
         else Mesh_restart_load env resfile test_flag nranks il
                \<lparr>start_time = GetOrAdd (time_start_time pin) 0.0,
                 tlim = time_tlim pin,
                 cfl_number = time_cfl_number pin,
                 time = snd (rd_time h), dt = snd (rd_dt h),
                 nlim = GetOrAdd (time_nlim pin) (-1),
                 ncycle = snd (rd_ncycle h),
                 num_mesh_threads = GetOrAdd (mesh_num_threads pin) 1,
                 mesh_size = msize, mesh_bcs = snd (rd_mesh_bcs h),
                 nrbx1 = rb1, nrbx2 = rb2, nrbx3 = rb3,
                 root_level = rootlevel,
                 max_level = GetOrAdd (mesh_maxlevel pin) 1 + rootlevel - 1,
                 current_level = il_current_level il,
                 multilevel = is_multilevel, adaptive = is_adaptive, face_only = is_face_only,
                 maxneighbor = BufferID env dim is_multilevel is_face_only,
                 nbtotal = nbtot, nbstart = 0, nbend = 0,
                 loclist = locs, costlist = il_costlist il, ranklist = [],
                 nslist = raw_nslist env, nblist = raw_nblist env, pblock = []\<rparr>)"

text \<open>The constructor: the first part, to the check of the id list, and the two others.\<close>

definition Mesh_restart :: "RestartEnv \<Rightarrow> ParameterInput \<Rightarrow> IOWrapper \<Rightarrow> int \<Rightarrow> error + Mesh" where
  "Mesh_restart env pin resfile test_flag =
    (let nranks = (if test_flag > 0 then test_flag else Globals_nranks env);
         h = file_header resfile;
         nbtot = snd (rd_nbtotal h);
         msize = snd (rd_mesh_size h)
     in
     if GetOrAdd (mesh_num_threads pin) 1 < 1 then Inl FatalNumThreads
     else if header_nerr h > 0 then Inl FatalRestartBroken
     else case check_cfl_number (time_cfl_number pin) (nx2 msize) of
       Inl e \<Rightarrow> Inl e
     | Inr _ \<Rightarrow>
     if nbtot < 0 then Inl BadArrayLength
     else if GetOrAdd (meshblock_nx1 pin) (nx1 msize) = 0
            \<or> GetOrAdd (meshblock_nx2 pin) (nx2 msize) = 0
            \<or> GetOrAdd (meshblock_nx3 pin) (nx3 msize) = 0 then Inl DivisionByZero
     else
     (let il = read_idlist resfile nbtot (snd (rd_root_level h)) in
      if il_nerr il > 0 then Inl FatalRestartBroken
      else Mesh_restart_tree env pin resfile test_flag nranks il))"

text \<open>A block's reads of the restart file that return fewer (or other) items than
  requested.\<close>

definition block_reads_short :: "RestartEnv \<Rightarrow> RestartBlockData \<Rightarrow> bool" where
  "block_reads_short env d \<longleftrightarrow>
     fst (rd_block_size d) \<noteq> 1 \<or> fst (rd_block_bcs d) \<noteq> 6
     \<or> fst (rd_u d) \<noteq> u_size (array_sizes env (snd (rd_block_size d)))
     \<or> (GENERAL_RELATIVITY env
          \<and> (fst (rd_w d) \<noteq> w_size (array_sizes env (snd (rd_block_size d)))
              \<or> fst (rd_w1 d) \<noteq> w1_size (array_sizes env (snd (rd_block_size d)))))
     \<or> (MAGNETIC_FIELDS_ENABLED env
          \<and> (fst (rd_x1f d) \<noteq> x1f_size (array_sizes env (snd (rd_block_size d)))
              \<or> fst (rd_x2f d) \<noteq> x2f_size (array_sizes env (snd (rd_block_size d)))
              \<or> fst (rd_x3f d) \<noteq> x3f_size (array_sizes env (snd (rd_block_size d)))))"

definition header_reads_short :: "RestartHeader \<Rightarrow> bool" where
  "header_reads_short h \<longleftrightarrow>
     fst (rd_nbtotal h) \<noteq> 1 \<or> fst (rd_root_level h) \<noteq> 1 \<or> fst (rd_mesh_size h) \<noteq> 1
     \<or> fst (rd_mesh_bcs h) \<noteq> 6 \<or> fst (rd_time h) \<noteq> 1 \<or> fst (rd_dt h) \<noteq> 1
     \<or> fst (rd_ncycle h) \<noteq> 1"

definition idrecord_reads_short :: "RestartIdRecord \<Rightarrow> bool" where
  "idrecord_reads_short r \<longleftrightarrow>
     fst (rd_bgid r) \<noteq> 1 \<or> fst (rd_loc r) \<noteq> 1 \<or> fst (rd_cost r) \<noteq> 1 \<or> fst (rd_offset r) \<noteq> 1"


text \<open>The reads made for block \<open>i\<close>: those at the offset its id record gave.\<close>

definition block_data_of :: "IOWrapper \<Rightarrow> nat \<Rightarrow> RestartBlockData" where
  "block_data_of resfile i = file_block resfile (snd (rd_offset (file_idlist resfile i)))"

text \<open>The number of leaves of the tree rebuilt from the id list of the file.\<close>

definition restart_leaf_count :: "RestartEnv \<Rightarrow> ParameterInput \<Rightarrow> IOWrapper \<Rightarrow> int" where
  "restart_leaf_count env pin resfile =
     (let h = file_header resfile; msize = snd (rd_mesh_size h)
      in snd (rebuild_tree env
                (il_loclist (read_idlist resfile (snd (rd_nbtotal h)) (snd (rd_root_level h))))
                (c_div (nx1 msize) (GetOrAdd (meshblock_nx1 pin) (nx1 msize)))
                (c_div (nx2 msize) (GetOrAdd (meshblock_nx2 pin) (nx2 msize)))
                (c_div (nx3 msize) (GetOrAdd (meshblock_nx3 pin) (nx3 msize)))
                (snd (rd_root_level h))))"

text \<open>A restart file of two blocks on one process; the two arguments are the numbers
  of items returned by the read of \<^verbatim>\<open>time\<close> and by the read of the last field array of
  the second block.\<close>

definition restart_env0 :: RestartEnv where
  "restart_env0 =
     \<lparr>MPI_PARALLEL = False, MAGNETIC_FIELDS_ENABLED = True, GENERAL_RELATIVITY = False,
      VISCOSITY = False, Globals_nranks = 1, Globals_my_rank = 0,
      BufferID = (\<lambda>d ml fo. 2),
      rebuild_tree = (\<lambda>locs a b c r. (locs, int (length locs))),
      array_sizes = (\<lambda>sz. \<lparr>u_size = 5 * nat (nx1 sz), w_size = 5 * nat (nx1 sz),
                             w1_size = 5 * nat (nx1 sz), x1f_size = nat (nx1 sz) + 1,
                             x2f_size = nat (nx1 sz), x3f_size = nat (nx1 sz)\<rparr>),
      search_neighbors = (\<lambda>rl sl b. b),
      raw_block = block0 0 (loc0 0 0 0 0) 0 0,
      raw_nslist = [7], raw_nblist = [9]\<rparr>"

definition restart_file0 :: "nat \<Rightarrow> nat \<Rightarrow> IOWrapper" where
  "restart_file0 got_time got_x3f =
     \<lparr>file_header =
        \<lparr>rd_nbtotal = (1, 2), rd_root_level = (1, 1),
         rd_mesh_size = (1, region0\<lparr>nx1 := 32\<rparr>), rd_mesh_bcs = (6, [4,4,0,0,0,0]),
         rd_time = (got_time, 1 / 4), rd_dt = (1, 1 / 100), rd_ncycle = (1, 25)\<rparr>,
      file_idlist = (\<lambda>i. \<lparr>rd_bgid = (1, int i), rd_loc = (1, loc0 1 (int i) 0 0),
                            rd_cost = (1, 1), rd_offset = (1, 1000 * (i + 1))\<rparr>),
      file_block = (\<lambda>off. \<lparr>rd_block_size = (1, region0), rd_block_bcs = (6, [4,-1,0,0,0,0]),
                            rd_u = (80, []), rd_w = (0, []), rd_w1 = (0, []),
                            rd_x1f = (17, []), rd_x2f = (16, []),
                            rd_x3f = (if off = 2000 then got_x3f else 16, [])\<rparr>)\<rparr>"

text \<open>The blocks are loaded: the constructor does not return before the loop.\<close>

definition blocks_loaded :: "RestartEnv \<Rightarrow> IOWrapper \<Rightarrow> int \<Rightarrow> bool" where
  "blocks_loaded env resfile test_flag \<longleftrightarrow>
     test_flag \<le> 0
     \<and> (MPI_PARALLEL env = False
         \<or> Globals_nranks env \<le> snd (rd_nbtotal (file_header resfile)))"

section \<open>Theorems\<close>

subsection \<open>FindMeshBlock\<close>

lemma FindMeshBlock_loop_None:
  "FindMeshBlock_loop bs tgid = None \<longleftrightarrow> (\<forall>b \<in> set bs. gid b \<noteq> tgid)"
  by (induction bs) auto

lemma FindMeshBlock_loop_Some:
  "FindMeshBlock_loop bs tgid = Some b \<Longrightarrow>
     \<exists>i < length bs. bs ! i = b \<and> gid b = tgid \<and> (\<forall>j < i. gid (bs ! j) \<noteq> tgid)"
proof (induction bs)
  case Nil
  then show ?case by simp
next
  case (Cons a bs)
  show ?case
  proof (cases "gid a = tgid")
    case True
    with Cons.prems have "a = b" by simp
    with True show ?thesis by (intro exI[of _ 0]) simp
  next
    case False
    with Cons.prems have "FindMeshBlock_loop bs tgid = Some b" by simp
    from Cons.IH[OF this] obtain i where i: "i < length bs" "bs ! i = b" "gid b = tgid"
      "\<forall>j < i. gid (bs ! j) \<noteq> tgid" by blast
    have "\<forall>j < Suc i. gid ((a # bs) ! j) \<noteq> tgid"
      using False i(4) by (auto simp: nth_Cons split: nat.splits)
    with i show ?thesis by (intro exI[of _ "Suc i"]) simp
  qed
qed

text \<open>
  C10. FindMeshBlock returns the first block of the local list whose gid is tgid, and
  NULL exactly when no block of the local list has that gid; the result is a function of
  the local list alone (two meshes with the same local list give the same answer).
\<close>

theorem FindMeshBlock_first_local:
  "(FindMeshBlock m tgid = None \<longleftrightarrow> (\<forall>b \<in> set (pblock m). gid b \<noteq> tgid))
   \<and> (\<forall>b. FindMeshBlock m tgid = Some b \<longrightarrow>
         (\<exists>i < length (pblock m). pblock m ! i = b \<and> gid b = tgid
            \<and> (\<forall>j < i. gid (pblock m ! j) \<noteq> tgid)))
   \<and> (\<forall>m'. pblock m' = pblock m \<longrightarrow> FindMeshBlock m' tgid = FindMeshBlock m tgid)"
  unfolding FindMeshBlock_def
  using FindMeshBlock_loop_None[of "pblock m" tgid] FindMeshBlock_loop_Some[of "pblock m" tgid]
  by auto

theorem FindMeshBlock_first_local_witness:
  "FindMeshBlock (mesh0 region0 [block0 3 (loc0 2 0 0 0) 1 0, block0 4 (loc0 2 1 0 0) 1 0,
       block0 4 (loc0 2 2 0 0) 1 0]) 4 = Some (block0 4 (loc0 2 1 0 0) 1 0)
   \<and> FindMeshBlock (mesh0 region0 [block0 3 (loc0 2 0 0 0) 1 0]) 7 = None"
  using FindMeshBlock_first_local[of "mesh0 region0 [block0 3 (loc0 2 0 0 0) 1 0]" 7]
  by (simp add: FindMeshBlock_def mesh0_def block0_def)

subsection \<open>NewTimeStep\<close>







subsection \<open>The CFL check of the constructor\<close>

lemma check_cfl_number_Inl:
  "(\<exists>e. check_cfl_number cfl n = Inl e) \<longleftrightarrow> (cfl > 1 \<and> n = 1) \<or> (cfl > 1 / 2 \<and> n > 1)"
  by (auto simp: check_cfl_number_def)

text \<open>
  C7. Reading the input fails with a fatal error (one of the errors thrown up to the CFL
  check) when \<open>nx2 = 1\<close> and the CFL number is above 1, and when \<open>nx2 > 1\<close> and the
  CFL number is above 0.5; in every other case the CFL check itself passes, and no input
  is rejected with one of the two CFL errors.
\<close>

theorem Mesh_cfl_validation:
  "(mesh_nx2 pin = 1 \<and> time_cfl_number pin > 1 \<longrightarrow>
      (\<exists>e. Mesh_read_input pin = Inl e
           \<and> e \<in> {FatalNumThreads, FatalNx1, FatalNx2, FatalNx3, FatalX1X3Plane, FatalCfl1D}))
   \<and> (mesh_nx2 pin > 1 \<and> time_cfl_number pin > 1 / 2 \<longrightarrow>
      (\<exists>e. Mesh_read_input pin = Inl e
           \<and> e \<in> {FatalNumThreads, FatalNx1, FatalNx2, FatalNx3, FatalX1X3Plane, FatalCfl2D3D}))
   \<and> (\<not> (mesh_nx2 pin = 1 \<and> time_cfl_number pin > 1)
        \<and> \<not> (mesh_nx2 pin > 1 \<and> time_cfl_number pin > 1 / 2) \<longrightarrow>
        check_cfl_number (time_cfl_number pin) (mesh_nx2 pin) = Inr ()
        \<and> Mesh_read_input pin \<noteq> Inl FatalCfl1D \<and> Mesh_read_input pin \<noteq> Inl FatalCfl2D3D)"
proof (intro conjI impI)
  assume "mesh_nx2 pin = 1 \<and> time_cfl_number pin > 1"
  then have "check_cfl_number (time_cfl_number pin) (mesh_nx2 pin) = Inl FatalCfl1D"
    by (simp add: check_cfl_number_def)
  then show "\<exists>e. Mesh_read_input pin = Inl e
           \<and> e \<in> {FatalNumThreads, FatalNx1, FatalNx2, FatalNx3, FatalX1X3Plane, FatalCfl1D}"
    by (simp add: Mesh_read_input_def Let_def)
next
  assume "mesh_nx2 pin > 1 \<and> time_cfl_number pin > 1 / 2"
  then have "check_cfl_number (time_cfl_number pin) (mesh_nx2 pin) = Inl FatalCfl2D3D"
    by (simp add: check_cfl_number_def)
  then show "\<exists>e. Mesh_read_input pin = Inl e
           \<and> e \<in> {FatalNumThreads, FatalNx1, FatalNx2, FatalNx3, FatalX1X3Plane, FatalCfl2D3D}"
    by (simp add: Mesh_read_input_def Let_def)
next
  assume a: "\<not> (mesh_nx2 pin = 1 \<and> time_cfl_number pin > 1)
        \<and> \<not> (mesh_nx2 pin > 1 \<and> time_cfl_number pin > 1 / 2)"
  then show c: "check_cfl_number (time_cfl_number pin) (mesh_nx2 pin) = Inr ()"
    by (auto simp: check_cfl_number_def)
  show "Mesh_read_input pin \<noteq> Inl FatalCfl1D"
    using c by (simp add: Mesh_read_input_def Let_def)
  show "Mesh_read_input pin \<noteq> Inl FatalCfl2D3D"
    using c by (simp add: Mesh_read_input_def Let_def)
qed

theorem Mesh_cfl_validation_witness:
  "Mesh_read_input (pin0 (11 / 10)) = Inl FatalCfl1D
   \<and> (\<exists>s. Mesh_read_input (pin0 (8 / 10)) = Inr s \<and> s_dim s = 1 \<and> s_nrbx1 s = 4)
   \<and> (\<exists>e. Mesh_read_input ((pin0 (6 / 10))\<lparr>mesh_nx2 := 64\<rparr>) = Inl e)"
  using Mesh_cfl_validation[of "pin0 (11 / 10)"]
        Mesh_cfl_validation[of "(pin0 (6 / 10))\<lparr>mesh_nx2 := 64\<rparr>"]
  by (simp add: Mesh_read_input_def pin0_def check_cfl_number_def GetOrAdd_def Let_def)

subsection \<open>LoadBalancing\<close>

























subsection \<open>SearchAndSetNeighbors\<close>

lemma bufid_SetNeighbor [simp]:
  "bufid (SetNeighbor irank ilevel igid ilid iox1 iox2 iox3 itype ibid itargetid ifi1 ifi2) = ibid"
  by (simp add: SetNeighbor_def)

lemma cur_bufid_advance [simp]: "cur_bufid (advance_bufid d s) = cur_bufid s + d"
  by (simp add: advance_bufid_def)

lemma cur_bufid_add [simp]: "cur_bufid (add_neighbor nb s) = cur_bufid s"
  by (simp add: add_neighbor_def)

lemma cur_bufid_set_nblevel [simp]: "cur_bufid (set_nblevel k j i v s) = cur_bufid s"
  by (simp add: set_nblevel_def)

lemma ids_ok_set_nblevel [simp]: "ids_ok (set_nblevel k j i v s) = ids_ok s"
  by (simp add: set_nblevel_def ids_ok_def)




















lemma ids_dense_set_nblevel [simp]: "ids_dense (set_nblevel k j i v s) = ids_dense s"
  by (simp add: set_nblevel_def ids_dense_def)














subsection \<open>The refinement cycle\<close>

lemmas MeshRefinement_eval = mesh0_def region0_def region2d_def block0_def loc0_def
  MeshRefinement_def MeshRefinement_lists_def array_read_def sibling_offsets_def
  sort_clderef_def Let_def

text \<open>
  C2. The claim fails on the code: when no block is flagged for refinement and between 1
  and \<open>minbl\<close> blocks are flagged for derefinement, MeshRefinement does not return
  early; \<^verbatim>\<open>lderef\<close> is not allocated and the filter loop reads \<^verbatim>\<open>lderef[0]\<close>.
\<close>

theorem MeshRefinement_few_derefine_flags:
  assumes "count_flag (pblock m) 1 = 0" "0 < count_flag (pblock m) (-1)"
    "count_flag (pblock m) (-1)
       \<le> (if nx3 (mesh_size m) > 1 then 8 else if nx2 (mesh_size m) > 1 then 4 else 2)"
  shows "MeshRefinement ssn init gt m = Inl UnallocatedRead"
proof -
  have "[0 .. count_flag (pblock m) (-1) - 1] = 0 # [1 .. count_flag (pblock m) (-1) - 1]"
    using assms(2) by (simp add: upto.simps)
  then show ?thesis using assms
    by (simp add: MeshRefinement_def MeshRefinement_lists_def array_read_def Let_def)
qed

theorem MeshRefinement_few_derefine_flags_witness:
  "count_flag (pblock lone_derefine_1d) 1 = 0 \<and> count_flag (pblock lone_derefine_1d) (-1) = 1
   \<and> nx2 (mesh_size lone_derefine_1d) = 1 \<and> nx3 (mesh_size lone_derefine_1d) = 1
   \<and> MeshRefinement (\<lambda>b. b) (\<lambda>r m. m) (\<lambda>a b. level a > level b) lone_derefine_1d
       = Inl UnallocatedRead"
proof -
  have ev: "count_flag (pblock lone_derefine_1d) 1 = 0
    \<and> count_flag (pblock lone_derefine_1d) (-1) = 1
    \<and> nx2 (mesh_size lone_derefine_1d) = 1 \<and> nx3 (mesh_size lone_derefine_1d) = 1"
    by (simp add: lone_derefine_1d_def mesh0_def block0_def region0_def)
  then have "MeshRefinement (\<lambda>b. b) (\<lambda>r m. m) (\<lambda>a b. level a > level b) lone_derefine_1d
       = Inl UnallocatedRead"
    by (intro MeshRefinement_few_derefine_flags) simp_all
  with ev show ?thesis by (simp only:)
qed

lemma array_read_in_set: "array_read (Some xs) i = Inr v \<Longrightarrow> v \<in> set xs"
  by (auto simp: array_read_def split: if_splits)

lemma sibling_scan_all:
  "sibling_scan (Some ld) ldn offs r rr = Inr v \<Longrightarrow>
     v \<le> rr + int (length offs)
     \<and> (v = rr + int (length offs) \<longrightarrow>
          (\<forall>off \<in> set offs. case off of (i, j, k) \<Rightarrow>
             \<lparr>lx1 = lx1 ldn + i, lx2 = lx2 ldn + j, lx3 = lx3 ldn + k, level = level ldn\<rparr>
               \<in> set ld))"
proof (induction offs arbitrary: r rr)
  case Nil
  then show ?case by simp
next
  case (Cons off offs)
  obtain i j k where off: "off = (i, j, k)" by (cases off) auto
  from Cons.prems obtain ldr where rd: "array_read (Some ld) r = Inr ldr"
    by (auto simp: off split: sum.splits)
  let ?hit = "lx1 ldn + i = lx1 ldr \<and> lx2 ldn + j = lx2 ldr \<and> lx3 ldn + k = lx3 ldr
                \<and> level ldn = level ldr"
  let ?rr = "if ?hit then rr + 1 else rr"
  from Cons.prems rd have rest: "sibling_scan (Some ld) ldn offs (r + 1) ?rr = Inr v"
    by (simp add: off)
  note ih = Cons.IH[OF rest]
  have le: "v \<le> rr + int (length (off # offs))" using ih by (auto split: if_splits)
  have full: "\<forall>o' \<in> set (off # offs). case o' of (i, j, k) \<Rightarrow>
             \<lparr>lx1 = lx1 ldn + i, lx2 = lx2 ldn + j, lx3 = lx3 ldn + k, level = level ldn\<rparr>
               \<in> set ld"
    if v: "v = rr + int (length (off # offs))"
  proof -
    have hit: ?hit
    proof (rule ccontr)
      assume nh: "\<not> ?hit"
      have "v \<le> ?rr + int (length offs)" using ih by blast
      then have "v \<le> rr + int (length offs)" by (simp only: if_not_P[OF nh])
      with v show False by simp
    qed
    then have "v = ?rr + int (length offs)" using v by simp
    with ih have tl: "\<forall>o' \<in> set offs. case o' of (i, j, k) \<Rightarrow>
             \<lparr>lx1 = lx1 ldn + i, lx2 = lx2 ldn + j, lx3 = lx3 ldn + k, level = level ldn\<rparr>
               \<in> set ld" by blast
    have "ldr = \<lparr>lx1 = lx1 ldn + i, lx2 = lx2 ldn + j, lx3 = lx3 ldn + k, level = level ldn\<rparr>"
      using hit by simp
    then have "\<lparr>lx1 = lx1 ldn + i, lx2 = lx2 ldn + j, lx3 = lx3 ldn + k, level = level ldn\<rparr>
                \<in> set ld"
      using array_read_in_set[OF rd] by simp
    with tl show ?thesis by (simp add: off)
  qed
  from le full show ?case by blast
qed

lemma even_aligned: "(x::int) AND 1 = 0 \<Longrightarrow> 2 * drop_bit (Suc 0) x = x"
  by (simp add: and_one_eq drop_bit_Suc) presburger

lemma derefine_loop_full_sets:
  assumes "derefine_loop (Some ld) ns tnd minbl je ke acc = Inr cl"
    and "int (length (sibling_offsets je ke)) \<le> minbl"
  shows "\<forall>p \<in> set cl. p \<in> set acc \<or>
           (\<forall>off \<in> set (sibling_offsets je ke). case off of (i, j, k) \<Rightarrow>
              \<lparr>lx1 = 2 * lx1 p + i, lx2 = 2 * lx2 p + j, lx3 = 2 * lx3 p + k,
               level = level p + 1\<rparr> \<in> set ld)"
  using assms(1)
proof (induction ns arbitrary: acc)
  case Nil
  then show ?case by simp
next
  case (Cons n ns)
  from Cons.prems obtain ldn where rd: "array_read (Some ld) n = Inr ldn"
    by (auto split: sum.splits)
  show ?case
  proof (cases "lx1 ldn AND 1 = 0 \<and> lx2 ldn AND 1 = 0 \<and> lx3 ldn AND 1 = 0")
    case False
    with Cons.prems rd have "derefine_loop (Some ld) ns tnd minbl je ke acc = Inr cl"
      by auto
    from Cons.IH[OF this] show ?thesis .
  next
    case True
    from Cons.prems rd True obtain rr where
      sc: "sibling_scan (Some ld) ldn (sibling_offsets je ke) (n + 1) 0 = Inr rr"
      by (auto split: sum.splits)
    show ?thesis
    proof (cases "rr = minbl")
      case False
      with Cons.prems rd True sc have "derefine_loop (Some ld) ns tnd minbl je ke acc = Inr cl"
        by auto
      from Cons.IH[OF this] show ?thesis .
    next
      case rrm: True
      let ?p = "\<lparr>lx1 = drop_bit 1 (lx1 ldn), lx2 = drop_bit 1 (lx2 ldn),
                 lx3 = drop_bit 1 (lx3 ldn), level = level ldn - 1\<rparr>"
      from Cons.prems rd True sc rrm
      have rest: "derefine_loop (Some ld) ns tnd minbl je ke (acc @ [?p]) = Inr cl"
        by (auto split: if_splits)
      from sibling_scan_all[OF sc] rrm assms(2)
      have all: "\<forall>off \<in> set (sibling_offsets je ke). case off of (i, j, k) \<Rightarrow>
             \<lparr>lx1 = lx1 ldn + i, lx2 = lx2 ldn + j, lx3 = lx3 ldn + k, level = level ldn\<rparr>
               \<in> set ld" by simp
      define full where "full = (\<lambda>q::LogicalLocation. \<forall>off \<in> set (sibling_offsets je ke). case off of (i, j, k) \<Rightarrow>
              \<lparr>lx1 = 2 * lx1 q + i, lx2 = 2 * lx2 q + j, lx3 = 2 * lx3 q + k,
               level = level q + 1\<rparr> \<in> set ld)"
      have p: "full ?p"
        unfolding full_def using all True by (simp add: even_aligned)
      have ih: "\<forall>q \<in> set cl. q \<in> set (acc @ [?p]) \<or> full q"
        unfolding full_def by (rule Cons.IH[OF rest])
      have "\<forall>q \<in> set cl. q \<in> set acc \<or> full q"
        using ih p by auto
      then show ?thesis unfolding full_def .
    qed
  qed
qed

lemma set_sort_insert: "set (sort_insert cmp x xs) = insert x (set xs)"
  by (induction xs) auto

lemma set_std_sort: "set (std_sort cmp xs) = set xs"
  by (induction xs) (simp_all add: set_sort_insert)

lemma set_sort_clderef: "set (sort_clderef gt cl) = set cl"
proof -
  have "set (take (length cl - 1) cl) \<union> set (drop (length cl - 1) cl) = set cl"
    by (metis append_take_drop_id set_append)
  then show ?thesis by (simp add: sort_clderef_def Let_def set_std_sort)
qed

lemma set_collect_lderef:
  "set (collect_lderef bs) = loc ` {b \<in> set bs. refine_flag b = -1}"
  by (induction bs) auto

text \<open>
  When the lists of a cycle are computed without an error, every parent in \<open>clderef\<close>
  has all its children (the siblings at the offsets of the three loops) among the
  locations of the blocks flagged for derefinement.
\<close>

lemma MeshRefinement_lists_full_sibling_sets:
  assumes "MeshRefinement_lists gt m = Inr (Some rl)" and "p \<in> set (clderef rl)"
  shows "\<forall>off \<in> set (sibling_offsets (if nx2 (mesh_size m) > 1 then 1 else 0)
                                      (if nx3 (mesh_size m) > 1 then 1 else 0)).
           case off of (i, j, k) \<Rightarrow>
             \<lparr>lx1 = 2 * lx1 p + i, lx2 = 2 * lx2 p + j, lx3 = 2 * lx3 p + k,
              level = level p + 1\<rparr> \<in> loc ` {b \<in> set (pblock m). refine_flag b = -1}"
proof -
  let ?minbl = "if nx3 (mesh_size m) > 1 then 8 else if nx2 (mesh_size m) > 1 then 4 else (2::int)"
  let ?je = "if nx2 (mesh_size m) > 1 then 1 else (0::int)"
  let ?ke = "if nx3 (mesh_size m) > 1 then 1 else (0::int)"
  let ?tnd = "count_flag (pblock m) (-1)"
  let ?ld = "if ?tnd > ?minbl then Some (collect_lderef (pblock m)) else None"
  from assms(1) obtain cl where
    dl: "derefine_loop ?ld [0 .. ?tnd - 1] ?tnd ?minbl ?je ?ke [] = Inr cl"
    and rl: "clderef rl = sort_clderef gt cl"
    by (auto simp: MeshRefinement_lists_def Let_def split: if_splits sum.splits)
  from assms(2) rl have pcl: "p \<in> set cl" by (simp add: set_sort_clderef)
  have alloc: "?ld = Some (collect_lderef (pblock m))"
  proof (rule ccontr)
    assume "?ld \<noteq> Some (collect_lderef (pblock m))"
    then have n: "?ld = None" by (simp split: if_splits)
    have "cl = []"
    proof (cases "[0 .. ?tnd - 1]")
      case Nil
      with dl show ?thesis by simp
    next
      case (Cons a as)
      with dl n show ?thesis by (simp add: array_read_def)
    qed
    with pcl show False by simp
  qed
  have len: "int (length (sibling_offsets ?je ?ke)) \<le> ?minbl"
    by (simp add: sibling_offsets_def upto.simps)
  from derefine_loop_full_sets[OF dl[unfolded alloc] len] pcl
  show ?thesis by (simp add: set_collect_lderef)
qed

text \<open>
  C4. The claim fails on the code in the case it names: in a 2D mesh with one of four
  siblings flagged for derefinement and nothing else flagged, the cycle does not reject
  the flag silently but reads the unallocated \<^verbatim>\<open>lderef\<close>, whatever
  SearchAndSetNeighbors, Initialize and the comparison are. (On the runs that do compute
  the lists, a parent is accepted only with all its siblings flagged:
  \<open>MeshRefinement_lists_full_sibling_sets\<close>.)
\<close>

theorem MeshRefinement_one_of_four_siblings:
  "MeshRefinement_lists gt one_of_four_siblings = Inl UnallocatedRead
   \<and> MeshRefinement ssn init gt one_of_four_siblings = Inl UnallocatedRead"
  by (simp add: one_of_four_siblings_def MeshRefinement_eval)


lemma reinitialize_loop_first:
  "reinitialize_loop ssn ps (first # others) = (ssn ^^ length ps) first # others"
  by (induction ps arbitrary: first) (simp_all add: funpow_swap1)

text \<open>
  C9. The claim fails on the code: a cycle that is not a no-op and returns applies
  SearchAndSetNeighbors to the first block of the list, once for every block of the list,
  and leaves every other block as it was, before it calls Initialize with 2.
\<close>

theorem MeshRefinement_reinitializes_first_block:
  assumes "MeshRefinement ssn init gt m = Inr m'"
  shows "m' = m \<or> (\<exists>first others. pblock m = first # others
            \<and> m' = init 2 (m\<lparr>pblock := (ssn ^^ length (pblock m)) first # others\<rparr>))"
proof (cases "MeshRefinement_lists gt m")
  case (Inl e)
  with assms show ?thesis by (simp add: MeshRefinement_def)
next
  case (Inr r)
  show ?thesis
  proof (cases r)
    case None
    with Inr assms show ?thesis by (simp add: MeshRefinement_def)
  next
    case (Some rl)
    have ne: "pblock m \<noteq> []"
    proof
      assume "pblock m = []"
      then have "MeshRefinement_lists gt m = Inr None"
        by (simp add: MeshRefinement_lists_def)
      with Inr Some show False by simp
    qed
    then obtain first others where p: "pblock m = first # others"
      by (cases "pblock m") auto
    have "m' = init 2 (m\<lparr>pblock := reinitialize_loop ssn (pblock m) (pblock m)\<rparr>)"
      using assms Inr Some by (simp add: MeshRefinement_def)
    then have "m' = init 2 (m\<lparr>pblock := (ssn ^^ length (pblock m)) first # others\<rparr>)"
      using reinitialize_loop_first[of ssn "pblock m" first others] p by simp
    with p show ?thesis by blast
  qed
qed

theorem MeshRefinement_reinitializes_first_block_witness:
  "MeshRefinement (\<lambda>b. b\<lparr>nneighbor := nneighbor b + 1\<rparr>) (\<lambda>r m. m\<lparr>ncycle := r\<rparr>)
      (\<lambda>a b. level a > level b) refine_first_of_two
   = Inr (refine_first_of_two\<lparr>ncycle := 2,
        pblock := [(block0 0 (loc0 2 0 0 0) 1 1)\<lparr>nneighbor := 2\<rparr>,
                   block0 1 (loc0 2 1 0 0) 1 0]\<rparr>)"
proof -
  have ev: "MeshRefinement (\<lambda>b. b\<lparr>nneighbor := nneighbor b + 1\<rparr>) (\<lambda>r m. m\<lparr>ncycle := r\<rparr>)
      (\<lambda>a b. level a > level b) refine_first_of_two
   = Inr (refine_first_of_two\<lparr>ncycle := 2,
        pblock := [(block0 0 (loc0 2 0 0 0) 1 1)\<lparr>nneighbor := 2\<rparr>,
                   block0 1 (loc0 2 1 0 0) 1 0]\<rparr>)"
    by (simp add: refine_first_of_two_def MeshRefinement_eval)
  from MeshRefinement_reinitializes_first_block[OF ev] ev show ?thesis by (simp only:)
qed

subsection \<open>The restart constructors\<close>

lemma count_nerr_nonneg: "0 \<le> count_nerr rs"
  by (induction rs) auto

lemma header_nerr_pos: "header_nerr h > 0 \<longleftrightarrow> header_reads_short h"
  using count_nerr_nonneg
  by (auto simp: header_nerr_def header_reads_short_def add_pos_nonneg add_nonneg_pos)


lemma idrecord_nerr_pos: "idrecord_nerr r > 0 \<longleftrightarrow> idrecord_reads_short r"
  by (auto simp: idrecord_nerr_def idrecord_reads_short_def)

lemma idrecord_nerr_nonneg: "0 \<le> idrecord_nerr r"
  by (simp add: idrecord_nerr_def count_nerr_nonneg)

lemma idlist_fold_nerr:
  "il_nerr (foldl (\<lambda>s i. read_idrecord rl s (g i)) s0 xs)
     = il_nerr s0 + sum_list (map (\<lambda>i. idrecord_nerr (g i)) xs)"
  by (induction xs arbitrary: s0) (simp_all add: read_idrecord_def)

lemma idlist_fold_offset:
  "il_offset (foldl (\<lambda>s i. read_idrecord rl s (g i)) s0 xs)
     = il_offset s0 @ map (\<lambda>i. snd (rd_offset (g i))) xs"
  by (induction xs arbitrary: s0) (simp_all add: read_idrecord_def)

lemma sum_list_pos_iff:
  "(\<And>x. 0 \<le> f x) \<Longrightarrow> sum_list (map f xs) > (0::int) \<longleftrightarrow> (\<exists>x \<in> set xs. f x > 0)"
proof (induction xs)
  case Nil
  then show ?case by simp
next
  case (Cons a xs)
  have s0: "0 \<le> sum_list (map f xs)" by (rule sum_list_nonneg) (use Cons.prems in auto)
  have a0: "0 \<le> f a" using Cons.prems by simp
  have ih: "sum_list (map f xs) > 0 \<longleftrightarrow> (\<exists>x \<in> set xs. f x > 0)"
    by (rule Cons.IH) (rule Cons.prems)
  have "f a + sum_list (map f xs) > 0 \<longleftrightarrow> f a > 0 \<or> sum_list (map f xs) > 0"
    using s0 a0 by linarith
  then show ?case using ih by simp
qed

lemma read_idlist_nerr:
  "il_nerr (read_idlist resfile n rl) > 0
     \<longleftrightarrow> (\<exists>i < nat n. idrecord_reads_short (file_idlist resfile i))"
proof -
  have "il_nerr (read_idlist resfile n rl)
          = sum_list (map (\<lambda>i. idrecord_nerr (file_idlist resfile i)) [0 ..< nat n])"
    unfolding read_idlist_def by (subst idlist_fold_nerr) simp
  also have "\<dots> > 0 \<longleftrightarrow> (\<exists>i \<in> set [0 ..< nat n]. idrecord_nerr (file_idlist resfile i) > 0)"
    by (rule sum_list_pos_iff) (rule idrecord_nerr_nonneg)
  finally show ?thesis by (auto simp: idrecord_nerr_pos)
qed

lemma read_idlist_offset:
  "il_offset (read_idlist resfile n rl)
     = map (\<lambda>i. snd (rd_offset (file_idlist resfile i))) [0 ..< nat n]"
  unfolding read_idlist_def by (subst idlist_fold_offset) simp

lemma MeshBlock_restart_Inr:
  assumes "MeshBlock_restart env g l iloc d c = Inr b"
  shows "\<not> block_reads_short env d"
  using assms
  by (auto simp: MeshBlock_restart_def block_reads_short_def Let_def split: if_splits)

lemma load_blocks_Inr:
  "load_blocks env resfile locs offs costs rl sl nb0 is acc = Inr bs \<Longrightarrow>
     length bs = length acc + length is
     \<and> (\<forall>i \<in> set is. \<exists>off. array_read (Some offs) i = Inr off
                          \<and> \<not> block_reads_short env (file_block resfile off))"
proof (induction "is" arbitrary: acc)
  case Nil
  then show ?case by simp
next
  case (Cons i rest)
  from Cons.prems obtain iloc off icost b where
    r: "array_read (Some locs) i = Inr iloc" "array_read (Some offs) i = Inr off"
       "array_read (Some costs) i = Inr icost"
       "MeshBlock_restart env i (i - nb0) iloc (file_block resfile off) icost = Inr b"
       "load_blocks env resfile locs offs costs rl sl nb0 rest
          (acc @ [search_neighbors env rl sl b]) = Inr bs"
    by (auto split: sum.splits)
  from Cons.IH[OF r(5)] MeshBlock_restart_Inr[OF r(4)] r(2)
  show ?case by auto
qed

lemma array_read_Inr:
  "array_read (Some xs) i = Inr v \<Longrightarrow> 0 \<le> i \<and> nat i < length xs \<and> v = xs ! nat i"
  by (auto simp: array_read_def split: if_splits)

lemma Mesh_restart_load_Inr:
  assumes "Mesh_restart_load env resfile test_flag nranks il m0 = Inr m"
    and "test_flag \<le> 0" and "MPI_PARALLEL env = False \<or> nranks \<le> nbtotal m0"
  shows "load_blocks env resfile (loclist m0) (il_offset il) (costlist m0)
           (ranklist m) (nslist m) (nbstart m) [nbstart m .. nbend m] [] = Inr (pblock m)"
  using assms unfolding Mesh_restart_load_def
  by (auto split: if_splits sum.splits prod.splits)

lemma Mesh_restart_tree_Inr:
  assumes "Mesh_restart_tree env pin resfile test_flag nranks il = Inr m"
    and "il = read_idlist resfile (snd (rd_nbtotal (file_header resfile)))
                (snd (rd_root_level (file_header resfile)))"
  shows "restart_leaf_count env pin resfile = snd (rd_nbtotal (file_header resfile))
    \<and> (test_flag \<le> 0
         \<and> (MPI_PARALLEL env = False \<or> nranks \<le> snd (rd_nbtotal (file_header resfile))) \<longrightarrow>
         (\<exists>locs costs. load_blocks env resfile locs (il_offset il) costs
            (ranklist m) (nslist m) (nbstart m) [nbstart m .. nbend m] [] = Inr (pblock m)))"
proof -
  obtain locs nnb where rb: "rebuild_tree env (il_loclist il)
      (c_div (nx1 (snd (rd_mesh_size (file_header resfile))))
         (GetOrAdd (meshblock_nx1 pin) (nx1 (snd (rd_mesh_size (file_header resfile))))))
      (c_div (nx2 (snd (rd_mesh_size (file_header resfile))))
         (GetOrAdd (meshblock_nx2 pin) (nx2 (snd (rd_mesh_size (file_header resfile))))))
      (c_div (nx3 (snd (rd_mesh_size (file_header resfile))))
         (GetOrAdd (meshblock_nx3 pin) (nx3 (snd (rd_mesh_size (file_header resfile))))))
      (snd (rd_root_level (file_header resfile))) = (locs, nnb)"
    by (cases "rebuild_tree env (il_loclist il)
      (c_div (nx1 (snd (rd_mesh_size (file_header resfile))))
         (GetOrAdd (meshblock_nx1 pin) (nx1 (snd (rd_mesh_size (file_header resfile))))))
      (c_div (nx2 (snd (rd_mesh_size (file_header resfile))))
         (GetOrAdd (meshblock_nx2 pin) (nx2 (snd (rd_mesh_size (file_header resfile))))))
      (c_div (nx3 (snd (rd_mesh_size (file_header resfile))))
         (GetOrAdd (meshblock_nx3 pin) (nx3 (snd (rd_mesh_size (file_header resfile))))))
      (snd (rd_root_level (file_header resfile)))") auto
  have nnb: "nnb = snd (rd_nbtotal (file_header resfile))"
    using assms(1) rb unfolding Mesh_restart_tree_def Let_def
    by (auto split: if_splits)
  have cnt: "restart_leaf_count env pin resfile = snd (rd_nbtotal (file_header resfile))"
    using rb nnb assms(2) by (simp add: restart_leaf_count_def Let_def)
  obtain m0 where m0: "Mesh_restart_load env resfile test_flag nranks il m0 = Inr m"
    "nbtotal m0 = snd (rd_nbtotal (file_header resfile))"
    using assms(1) rb nnb unfolding Mesh_restart_tree_def Let_def
    by (auto split: if_splits)
  show ?thesis
  proof (intro conjI impI)
    show "restart_leaf_count env pin resfile = snd (rd_nbtotal (file_header resfile))" by (rule cnt)
  next
    assume "test_flag \<le> 0
         \<and> (MPI_PARALLEL env = False \<or> nranks \<le> snd (rd_nbtotal (file_header resfile)))"
    then have "load_blocks env resfile (loclist m0) (il_offset il) (costlist m0)
           (ranklist m) (nslist m) (nbstart m) [nbstart m .. nbend m] [] = Inr (pblock m)"
      using Mesh_restart_load_Inr[OF m0(1)] m0(2) by simp
    then show "\<exists>locs costs. load_blocks env resfile locs (il_offset il) costs
            (ranklist m) (nslist m) (nbstart m) [nbstart m .. nbend m] [] = Inr (pblock m)"
      by blast
  qed
qed

lemma Mesh_restart_Inr:
  assumes "Mesh_restart env pin resfile test_flag = Inr m"
  shows "\<not> header_reads_short (file_header resfile)
    \<and> \<not> il_nerr (read_idlist resfile (snd (rd_nbtotal (file_header resfile)))
              (snd (rd_root_level (file_header resfile)))) > 0
    \<and> restart_leaf_count env pin resfile = snd (rd_nbtotal (file_header resfile))
    \<and> (blocks_loaded env resfile test_flag \<longrightarrow>
         (\<exists>locs costs. load_blocks env resfile locs
            (il_offset (read_idlist resfile (snd (rd_nbtotal (file_header resfile)))
                (snd (rd_root_level (file_header resfile)))))
            costs (ranklist m) (nslist m) (nbstart m) [nbstart m .. nbend m] [] = Inr (pblock m)))"
proof -
  let ?il = "read_idlist resfile (snd (rd_nbtotal (file_header resfile)))
                (snd (rd_root_level (file_header resfile)))"
  let ?nr = "if test_flag > 0 then test_flag else Globals_nranks env"
  from assms have h: "\<not> header_reads_short (file_header resfile)"
    unfolding Mesh_restart_def Let_def
    by (auto simp: header_nerr_pos split: if_splits sum.splits)
  from assms have n: "\<not> il_nerr ?il > 0"
    unfolding Mesh_restart_def Let_def
    by (auto split: if_splits sum.splits)
  from assms have t: "Mesh_restart_tree env pin resfile test_flag ?nr ?il = Inr m"
    unfolding Mesh_restart_def Let_def
    by (auto split: if_splits sum.splits)
  from Mesh_restart_tree_Inr[OF t refl] h n show ?thesis
    by (auto simp: blocks_loaded_def)
qed


text \<open>
  C8. The restart constructor ends in an error (no Mesh) when a read of the header
  returns another number of items than requested, when a read of one of the \<open>nbtotal\<close>
  id records does, and when the number of leaves of the rebuilt tree differs from
  \<open>nbtotal\<close>; and when it returns a Mesh with its blocks loaded, there is one block for
  every index from \<open>nbstart\<close> to \<open>nbend\<close>, these indices are below \<open>nbtotal\<close>, and no
  read of the data of these blocks (block size, boundary flags, conserved variables, with
  general relativity the two primitive arrays, with magnetic fields the three face
  fields) was short.
\<close>

theorem Mesh_restart_short_read_aborts:
  "(header_reads_short (file_header resfile) \<longrightarrow>
      (\<exists>e. Mesh_restart env pin resfile test_flag = Inl e))
   \<and> ((\<exists>i < nat (snd (rd_nbtotal (file_header resfile))).
          idrecord_reads_short (file_idlist resfile i)) \<longrightarrow>
      (\<exists>e. Mesh_restart env pin resfile test_flag = Inl e))
   \<and> (restart_leaf_count env pin resfile \<noteq> snd (rd_nbtotal (file_header resfile)) \<longrightarrow>
      (\<exists>e. Mesh_restart env pin resfile test_flag = Inl e))
   \<and> (\<forall>m. Mesh_restart env pin resfile test_flag = Inr m
           \<and> blocks_loaded env resfile test_flag \<longrightarrow>
         length (pblock m) = length [nbstart m .. nbend m]
         \<and> (\<forall>i. nbstart m \<le> i \<and> i \<le> nbend m \<longrightarrow>
               0 \<le> i \<and> i < snd (rd_nbtotal (file_header resfile))
               \<and> \<not> block_reads_short env (block_data_of resfile (nat i))))"
proof -
  let ?R = "Mesh_restart env pin resfile test_flag"
  let ?n = "snd (rd_nbtotal (file_header resfile))"
  let ?il = "read_idlist resfile ?n (snd (rd_root_level (file_header resfile)))"
  have inl: "\<exists>e. ?R = Inl e" if "\<And>m. ?R \<noteq> Inr m"
    using that by (cases ?R) auto
  have a: "header_reads_short (file_header resfile) \<longrightarrow> (\<exists>e. ?R = Inl e)"
    using Mesh_restart_Inr[of env pin resfile test_flag] inl by blast
  have b: "(\<exists>i < nat ?n. idrecord_reads_short (file_idlist resfile i)) \<longrightarrow> (\<exists>e. ?R = Inl e)"
    using Mesh_restart_Inr[of env pin resfile test_flag] inl
      read_idlist_nerr[of resfile ?n "snd (rd_root_level (file_header resfile))"] by blast
  have c: "restart_leaf_count env pin resfile \<noteq> ?n \<longrightarrow> (\<exists>e. ?R = Inl e)"
    using Mesh_restart_Inr[of env pin resfile test_flag] inl by blast
  have d: "\<forall>m. ?R = Inr m \<and> blocks_loaded env resfile test_flag \<longrightarrow>
         length (pblock m) = length [nbstart m .. nbend m]
         \<and> (\<forall>i. nbstart m \<le> i \<and> i \<le> nbend m \<longrightarrow>
               0 \<le> i \<and> i < ?n \<and> \<not> block_reads_short env (block_data_of resfile (nat i)))"
  proof (intro allI impI)
    fix m assume h: "?R = Inr m \<and> blocks_loaded env resfile test_flag"
    with Mesh_restart_Inr[of env pin resfile test_flag m] obtain locs costs where
      lb: "load_blocks env resfile locs (il_offset ?il) costs (ranklist m) (nslist m) (nbstart m)
             [nbstart m .. nbend m] [] = Inr (pblock m)" by blast
    note l = load_blocks_Inr[OF lb]
    have len: "length (pblock m) = length [nbstart m .. nbend m]" using l by simp
    have each: "0 \<le> i \<and> i < ?n \<and> \<not> block_reads_short env (block_data_of resfile (nat i))"
      if "nbstart m \<le> i \<and> i \<le> nbend m" for i
    proof -
      from that have "i \<in> set [nbstart m .. nbend m]" by simp
      with l obtain off where off: "array_read (Some (il_offset ?il)) i = Inr off"
        "\<not> block_reads_short env (file_block resfile off)" by blast
      from array_read_Inr[OF off(1)] have i: "0 \<le> i" "nat i < length (il_offset ?il)"
        "off = il_offset ?il ! nat i" by simp_all
      have lo: "length (il_offset ?il) = nat ?n" by (simp add: read_idlist_offset)
      have "off = snd (rd_offset (file_idlist resfile (nat i)))"
        using i(2,3) lo by (simp add: read_idlist_offset)
      with off(2) i lo show ?thesis by (simp add: block_data_of_def)
    qed
    from len each
    show "length (pblock m) = length [nbstart m .. nbend m]
         \<and> (\<forall>i. nbstart m \<le> i \<and> i \<le> nbend m \<longrightarrow>
               0 \<le> i \<and> i < ?n \<and> \<not> block_reads_short env (block_data_of resfile (nat i)))"
      by blast
  qed
  from a b c d show ?thesis by (intro conjI)
qed

lemmas Mesh_restart_eval =
  Mesh_restart_def Mesh_restart_tree_def Mesh_restart_load_def read_idlist_def
  read_idrecord_def header_nerr_def idrecord_nerr_def MeshBlock_restart_def array_read_def
  restart_env0_def restart_file0_def pin0_def region0_def block0_def loc0_def GetOrAdd_def
  check_cfl_number_def c_div_def LoadBalancing_def LoadBalancing_starts_step_def Let_def
  upt_rec

theorem Mesh_restart_short_read_aborts_witness:
  "Mesh_restart restart_env0 (pin0 (8 / 10)) (restart_file0 0 16) 0 = Inl FatalRestartBroken
   \<and> Mesh_restart restart_env0 (pin0 (8 / 10)) (restart_file0 1 15) 0
       = Inl FatalBlockRestartBroken
   \<and> (\<exists>m. Mesh_restart restart_env0 (pin0 (8 / 10)) (restart_file0 1 16) 0 = Inr m
          \<and> nbtotal m = 2 \<and> nbstart m = 0 \<and> nbend m = 1 \<and> length (pblock m) = 2)"
proof -
  have e1: "Mesh_restart restart_env0 (pin0 (8 / 10)) (restart_file0 0 16) 0
              = Inl FatalRestartBroken"
    by (simp add: Mesh_restart_eval)
  have e2: "Mesh_restart restart_env0 (pin0 (8 / 10)) (restart_file0 1 15) 0
              = Inl FatalBlockRestartBroken"
    by (simp add: Mesh_restart_eval upto.simps)
  have e3: "\<exists>m. Mesh_restart restart_env0 (pin0 (8 / 10)) (restart_file0 1 16) 0 = Inr m
          \<and> nbtotal m = 2 \<and> nbstart m = 0 \<and> nbend m = 1 \<and> length (pblock m) = 2"
    by (simp add: Mesh_restart_eval upto.simps)
  from Mesh_restart_short_read_aborts[of "restart_file0 0 16" restart_env0 "pin0 (8 / 10)" 0]
    e1 e2 e3
  show ?thesis by (simp only:)
qed

end
